theory Spec2Isabelle
  imports Complex_Main
begin

section \<open>JavaScript values, promises and thrown values\<close>

text \<open>
  The store and the repository exchange untyped run-time values: the TypeScript
  annotations are erased, and the code itself checks \<^verbatim>\<open>Array.isArray\<close>,
  truthiness and \<^verbatim>\<open>instanceof Error\<close>. Numbers are real numbers plus NaN
  (the infinities behave like any non-zero number in everything modelled here). An
  object is the list of its own properties, read with \<open>map_of\<close>.
\<close>

datatype jsvalue =
    JUndefined
  | JNull
  | JBool bool
  | JNum real
  | JNaN
  | JStr string
  | JArr "jsvalue list"
  | JObj "(string \<times> jsvalue) list"

text \<open>What a \<^verbatim>\<open>catch (err)\<close> receives: an instance of Error with its message, or any other value.\<close>

datatype thrown = Error string | NonError jsvalue

text \<open>A promise is modelled by the way it settles.\<close>

datatype outcome = Resolves jsvalue | Rejects thrown

text \<open>\<^verbatim>\<open>Array.isArray(v)\<close>\<close>

fun isArray :: "jsvalue \<Rightarrow> bool" where
  "isArray (JArr xs) = True"
| "isArray v = False"

text \<open>The elements of \<^verbatim>\<open>Array.isArray(v) ? v : []\<close>.\<close>

fun arrayOrEmpty :: "jsvalue \<Rightarrow> jsvalue list" where
  "arrayOrEmpty (JArr xs) = xs"
| "arrayOrEmpty v = []"

text \<open>JavaScript truthiness: the falsy values are undefined, null, false, 0, NaN and the empty string.\<close>

fun truthy :: "jsvalue \<Rightarrow> bool" where
  "truthy JUndefined = False"
| "truthy JNull = False"
| "truthy (JBool b) = b"
| "truthy (JNum r) = (r \<noteq> 0)"
| "truthy JNaN = False"
| "truthy (JStr s) = (s \<noteq> [])"
| "truthy (JArr xs) = True"
| "truthy (JObj ps) = True"

text \<open>Property read \<^verbatim>\<open>v.key\<close> on a value that is neither null nor undefined, for a key
  that no prototype defines.\<close>

fun getProp :: "jsvalue \<Rightarrow> string \<Rightarrow> jsvalue" where
  "getProp (JObj ps) k = (case map_of ps k of Some v \<Rightarrow> v | None \<Rightarrow> JUndefined)"
| "getProp v k = JUndefined"

text \<open>\<^verbatim>\<open>err instanceof Error ? err.message : fallback\<close>\<close>

fun errMessage :: "thrown \<Rightarrow> string \<Rightarrow> string" where
  "errMessage (Error m) fallback = m"
| "errMessage (NonError v) fallback = fallback"

section \<open>Books.controller.ts: the store\<close>

text \<open>
  The observable fields of the object built by \<^verbatim>\<open>createBooksStore\<close>. The field
  \<open>viewType\<close> is a string: \<^verbatim>\<open>setViewType\<close> checks its argument against the two
  valid literals at run time, and \<^verbatim>\<open>loadBooks\<close> compares the field with them.
\<close>

record BooksStore =
  books :: "jsvalue list"
  isLoading :: bool
  error :: "string option"
  viewType :: string
  privateBooksCount :: nat

text \<open>
  The injected repository (interface \<^verbatim>\<open>BooksRepository\<close>). Each function acts on the
  outside world \<open>'w\<close> and returns the way its promise settles.
\<close>

record 'w BooksRepository =
  getBooks :: "'w \<Rightarrow> outcome \<times> 'w"
  getPrivateBooks :: "'w \<Rightarrow> outcome \<times> 'w"
  addBook :: "string \<Rightarrow> string \<Rightarrow> 'w \<Rightarrow> outcome \<times> 'w"

text \<open>
  The log records, in order, every entry into \<^verbatim>\<open>loadBooks\<close> and
  \<^verbatim>\<open>loadPrivateBooksCount\<close> and every call of a repository function, as the spies
  of the test suite do.
\<close>

datatype event =
    Enter_loadBooks
  | Enter_loadPrivateBooksCount
  | Repo_getBooks
  | Repo_getPrivateBooks
  | Repo_addBook string string

record 'w system =
  store :: BooksStore
  world :: 'w
  calls :: "event list"

text \<open>The object literal of \<^verbatim>\<open>createBooksStore\<close> (lines 39-43).\<close>

definition createBooksStore :: BooksStore where
  "createBooksStore =
     \<lparr>books = [], isLoading = False, error = None, viewType = ''all'', privateBooksCount = 0\<rparr>"

text \<open>One call of a repository function: the world moves on and the call is logged.\<close>

definition callRepo :: "('w \<Rightarrow> outcome \<times> 'w) \<Rightarrow> event \<Rightarrow> 'w system \<Rightarrow> outcome \<times> 'w system" where
  "callRepo f ev \<sigma> =
     (case f (world \<sigma>) of (r, w') \<Rightarrow> (r, \<sigma>\<lparr>world := w', calls := calls \<sigma> @ [ev]\<rparr>))"

subsection \<open>loadBooks\<close>

text \<open>
  Lines 50-58, up to the \<^verbatim>\<open>await\<close>: the flags are set and the fetch that matches
  \<open>viewType\<close> is called. The result is the promise being awaited, or \<open>None\<close> when
  neither branch is taken: then \<open>loadedBooks\<close> keeps its initial value \<^verbatim>\<open>[]\<close> and
  nothing is awaited.
\<close>

definition loadBooks_start :: "'w BooksRepository \<Rightarrow> 'w system \<Rightarrow> outcome option \<times> 'w system" where
  "loadBooks_start repository \<sigma> =
     (let \<sigma>1 = \<sigma>\<lparr>store := (store \<sigma>)\<lparr>isLoading := True, error := None\<rparr>,
                  calls := calls \<sigma> @ [Enter_loadBooks]\<rparr>
      in if viewType (store \<sigma>1) = ''all'' then
           (case callRepo (getBooks repository) Repo_getBooks \<sigma>1 of (r, \<sigma>2) \<Rightarrow> (Some r, \<sigma>2))
         else if viewType (store \<sigma>1) = ''private'' then
           (case callRepo (getPrivateBooks repository) Repo_getPrivateBooks \<sigma>1 of (r, \<sigma>2) \<Rightarrow> (Some r, \<sigma>2))
         else (None, \<sigma>1))"

text \<open>Lines 59-72, after the \<^verbatim>\<open>await\<close>: the rest of \<^verbatim>\<open>try\<close>, or \<^verbatim>\<open>catch\<close>, then \<^verbatim>\<open>finally\<close>.\<close>

definition loadBooks_resume :: "outcome option \<Rightarrow> BooksStore \<Rightarrow> BooksStore" where
  "loadBooks_resume p s =
     (let s1 = (case p of
                  None \<Rightarrow> s\<lparr>books := []\<rparr>
                | Some (Resolves loadedBooks) \<Rightarrow> s\<lparr>books := arrayOrEmpty loadedBooks\<rparr>
                | Some (Rejects err) \<Rightarrow>
                    s\<lparr>error := Some (errMessage err ''Failed to load books''), books := []\<rparr>)
      in s1\<lparr>isLoading := False\<rparr>)"

text \<open>\<^verbatim>\<open>await store.loadBooks()\<close>: the call run to completion.\<close>

definition loadBooks :: "'w BooksRepository \<Rightarrow> 'w system \<Rightarrow> 'w system" where
  "loadBooks repository \<sigma> =
     (case loadBooks_start repository \<sigma> of
        (p, \<sigma>1) \<Rightarrow> \<sigma>1\<lparr>store := loadBooks_resume p (store \<sigma>1)\<rparr>)"

subsection \<open>loadPrivateBooksCount\<close>

text \<open>Line 81, up to the \<^verbatim>\<open>await\<close>.\<close>

definition loadPrivateBooksCount_start :: "'w BooksRepository \<Rightarrow> 'w system \<Rightarrow> outcome \<times> 'w system" where
  "loadPrivateBooksCount_start repository \<sigma> =
     callRepo (getPrivateBooks repository) Repo_getPrivateBooks
       (\<sigma>\<lparr>calls := calls \<sigma> @ [Enter_loadPrivateBooksCount]\<rparr>)"

text \<open>Lines 83-93, after the \<^verbatim>\<open>await\<close>.\<close>

definition loadPrivateBooksCount_resume :: "outcome \<Rightarrow> BooksStore \<Rightarrow> BooksStore" where
  "loadPrivateBooksCount_resume p s =
     (case p of
        Resolves privateBooksFromApi \<Rightarrow>
          s\<lparr>privateBooksCount := length (arrayOrEmpty privateBooksFromApi)\<rparr>
      | Rejects err \<Rightarrow> s\<lparr>privateBooksCount := 0\<rparr>)"

text \<open>\<^verbatim>\<open>await store.loadPrivateBooksCount()\<close>: the call run to completion.\<close>

definition loadPrivateBooksCount :: "'w BooksRepository \<Rightarrow> 'w system \<Rightarrow> 'w system" where
  "loadPrivateBooksCount repository \<sigma> =
     (case loadPrivateBooksCount_start repository \<sigma> of
        (p, \<sigma>1) \<Rightarrow> \<sigma>1\<lparr>store := loadPrivateBooksCount_resume p (store \<sigma>1)\<rparr>)"

subsection \<open>addBook\<close>

text \<open>
  Lines 103-113, up to the \<^verbatim>\<open>await\<close>. On empty input the function returns at
  line 107 without awaiting anything (\<open>None\<close>); otherwise the flags are set, the
  repository is called and its promise is awaited.
\<close>

definition addBook_start ::
    "'w BooksRepository \<Rightarrow> string \<Rightarrow> string \<Rightarrow> 'w system \<Rightarrow> outcome option \<times> 'w system" where
  "addBook_start repository name author \<sigma> =
     (if name = [] \<or> author = [] then
        (None, \<sigma>\<lparr>store := (store \<sigma>)\<lparr>error := Some ''Book name and author cannot be empty.''\<rparr>\<rparr>)
      else
        (case callRepo (addBook repository name author) (Repo_addBook name author)
                (\<sigma>\<lparr>store := (store \<sigma>)\<lparr>isLoading := True, error := None\<rparr>\<rparr>) of
           (r, \<sigma>1) \<Rightarrow> (Some r, \<sigma>1)))"

text \<open>The \<^verbatim>\<open>catch\<close> block, lines 120-124.\<close>

definition addBook_catch :: "thrown \<Rightarrow> BooksStore \<Rightarrow> BooksStore" where
  "addBook_catch err s = s\<lparr>error := Some (errMessage err ''Failed to add book'')\<rparr>"

text \<open>
  Lines 114-129, after the \<^verbatim>\<open>await\<close>: the two awaited reloads or the \<^verbatim>\<open>throw\<close>
  of line 118, the \<^verbatim>\<open>catch\<close>, then \<^verbatim>\<open>finally\<close>. Neither loader ever rejects, so
  the reloads cannot reach the \<^verbatim>\<open>catch\<close> block.
\<close>

definition addBook_resume :: "'w BooksRepository \<Rightarrow> outcome \<Rightarrow> 'w system \<Rightarrow> 'w system" where
  "addBook_resume repository p \<sigma> =
     (let \<sigma>' = (case p of
                  Resolves success \<Rightarrow>
                    if truthy success then
                      loadPrivateBooksCount repository (loadBooks repository \<sigma>)
                    else
                      \<sigma>\<lparr>store := addBook_catch
                         (Error ''Repository returned false, book might not have been added.'')
                         (store \<sigma>)\<rparr>
                | Rejects err \<Rightarrow> \<sigma>\<lparr>store := addBook_catch err (store \<sigma>)\<rparr>)
      in \<sigma>'\<lparr>store := (store \<sigma>')\<lparr>isLoading := False\<rparr>\<rparr>)"

text \<open>
  The store's \<^verbatim>\<open>addBook(name, author)\<close> (lines 102-130), run to completion. It is
  named \<open>store_addBook\<close> here because \<open>addBook\<close> is the repository's function.
\<close>

definition store_addBook :: "'w BooksRepository \<Rightarrow> string \<Rightarrow> string \<Rightarrow> 'w system \<Rightarrow> 'w system" where
  "store_addBook repository name author \<sigma> =
     (case addBook_start repository name author \<sigma> of
        (None, \<sigma>1) \<Rightarrow> \<sigma>1
      | (Some p, \<sigma>1) \<Rightarrow> addBook_resume repository p \<sigma>1)"

subsection \<open>setViewType and init\<close>

text \<open>
  \<^verbatim>\<open>setViewType\<close> calls the two loaders without awaiting them. Each call runs up to
  its \<^verbatim>\<open>await\<close> at once; what is left of it is a continuation that runs some time
  after \<^verbatim>\<open>setViewType\<close> has returned.
\<close>

datatype continuation =
    Awaiting_loadBooks "outcome option"
  | Awaiting_loadPrivateBooksCount outcome

fun resume :: "continuation \<Rightarrow> BooksStore \<Rightarrow> BooksStore" where
  "resume (Awaiting_loadBooks p) s = loadBooks_resume p s"
| "resume (Awaiting_loadPrivateBooksCount p) s = loadPrivateBooksCount_resume p s"

text \<open>Lines 136-146. The result is the state when the call returns and the continuations left behind.\<close>

definition setViewType ::
    "'w BooksRepository \<Rightarrow> string \<Rightarrow> 'w system \<Rightarrow> 'w system \<times> continuation list" where
  "setViewType repository type \<sigma> =
     (if type = ''all'' \<or> type = ''private'' then
        (if viewType (store \<sigma>) \<noteq> type then
           (case loadBooks_start repository (\<sigma>\<lparr>store := (store \<sigma>)\<lparr>viewType := type\<rparr>\<rparr>) of
              (p, \<sigma>1) \<Rightarrow>
                (case loadPrivateBooksCount_start repository \<sigma>1 of
                   (q, \<sigma>2) \<Rightarrow> (\<sigma>2, [Awaiting_loadBooks p, Awaiting_loadPrivateBooksCount q])))
         else (\<sigma>, []))
      else (\<sigma>, []))"

text \<open>Lines 151-154.\<close>

definition init :: "'w BooksRepository \<Rightarrow> 'w system \<Rightarrow> 'w system" where
  "init repository \<sigma> = loadPrivateBooksCount repository (loadBooks repository \<sigma>)"

section \<open>Books.repository.ts\<close>

text \<open>
  The module's exports \<^verbatim>\<open>getBooks\<close>, \<^verbatim>\<open>getPrivateBooks\<close> and \<^verbatim>\<open>addBook\<close> carry
  the prefix \<open>repository_\<close> here, the plain names being the fields of the interface
  above. The gateway functions \<^verbatim>\<open>get\<close> and \<^verbatim>\<open>post\<close> of Shared/ApiGateway.ts are
  the module's collaborators; they are parameters, as in the module's tests.
\<close>

record 'w ApiGateway =
  get :: "string \<Rightarrow> 'w \<Rightarrow> outcome \<times> 'w"
  post :: "string \<Rightarrow> jsvalue \<Rightarrow> 'w \<Rightarrow> outcome \<times> 'w"

text \<open>Lines 9-14.\<close>

definition repository_getBooks :: "'w ApiGateway \<Rightarrow> 'w \<Rightarrow> outcome \<times> 'w" where
  "repository_getBooks gw w =
     (case get gw ''/'' w of
        (Resolves booksDto, w') \<Rightarrow> (Resolves (JArr (arrayOrEmpty booksDto)), w')
      | (Rejects err, w') \<Rightarrow> (Rejects err, w'))"

text \<open>Lines 21-30.\<close>

definition repository_getPrivateBooks :: "'w ApiGateway \<Rightarrow> 'w \<Rightarrow> outcome \<times> 'w" where
  "repository_getPrivateBooks gw w =
     (case get gw ''/private'' w of
        (Resolves booksDto, w') \<Rightarrow> (Resolves (JArr (arrayOrEmpty booksDto)), w')
      | (Rejects err, w') \<Rightarrow> (Resolves (JArr []), w'))"

text \<open>
  Lines 45-48: \<^verbatim>\<open>Math.floor(Date.now() + Math.random() * 1000)\<close>. The two readings of
  the environment are the arguments: \<open>now\<close> is the clock in milliseconds, \<open>rnd\<close> the
  random number.
\<close>

definition generateUniqueId :: "int \<Rightarrow> real \<Rightarrow> int" where
  "generateUniqueId now rnd = \<lfloor>of_int now + rnd * 1000\<rfloor>"

text \<open>The payload \<^verbatim>\<open>{ id, name, author }\<close> of lines 61-65.\<close>

definition addBook_payload :: "int \<Rightarrow> string \<Rightarrow> string \<Rightarrow> jsvalue" where
  "addBook_payload i name author =
     JObj [(''id'', JNum (of_int i)), (''name'', JStr name), (''author'', JStr author)]"

text \<open>Line 68: \<^verbatim>\<open>bookAddDto && bookAddDto.status === "ok" ? true : false\<close>.\<close>

definition addBook_result :: "jsvalue \<Rightarrow> bool" where
  "addBook_result bookAddDto =
     (if truthy bookAddDto \<and> getProp bookAddDto ''status'' = JStr ''ok'' then True else False)"

text \<open>Lines 57-69.\<close>

definition repository_addBook ::
    "'w ApiGateway \<Rightarrow> int \<Rightarrow> real \<Rightarrow> string \<Rightarrow> string \<Rightarrow> 'w \<Rightarrow> outcome \<times> 'w" where
  "repository_addBook gw now rnd name author w =
     (let i = generateUniqueId now rnd
      in case post gw ''/'' (addBook_payload i name author) w of
           (Resolves bookAddDto, w') \<Rightarrow> (Resolves (JBool (addBook_result bookAddDto)), w')
         | (Rejects err, w') \<Rightarrow> (Rejects err, w'))"

section \<open>Test doubles\<close>

text \<open>
  The mock repository of the test suite: each function settles in a fixed way, and the
  world counts the calls received. \<open>sampleBooks n\<close> is an array of \<open>n\<close> books.
\<close>

definition sampleBooks :: "nat \<Rightarrow> jsvalue" where
  "sampleBooks n =
     JArr (map (\<lambda>i. JObj [(''id'', JNum (of_nat i)), (''name'', JStr ''Book''), (''author'', JStr ''Author'')])
             [1..<Suc n])"

definition createMockRepository :: "outcome \<Rightarrow> outcome \<Rightarrow> outcome \<Rightarrow> nat BooksRepository" where
  "createMockRepository all private added =
     \<lparr>getBooks = (\<lambda>w. (all, Suc w)),
      getPrivateBooks = (\<lambda>w. (private, Suc w)),
      addBook = (\<lambda>name author w. (added, Suc w))\<rparr>"

definition demoRepository :: "nat BooksRepository" where
  "demoRepository =
     createMockRepository (Resolves (sampleBooks 5)) (Resolves (sampleBooks 3)) (Resolves (JBool True))"

definition freshSystem :: "nat system" where
  "freshSystem = \<lparr>store = createBooksStore, world = 0, calls = []\<rparr>"

text \<open>
  A gateway double for the repository: \<open>post\<close> resolves to a fixed response and the
  world keeps the path and payload of every request sent.
\<close>

definition recordingGateway :: "jsvalue \<Rightarrow> (string \<times> jsvalue) list ApiGateway" where
  "recordingGateway response =
     \<lparr>get = (\<lambda>path w. (Resolves JNull, w)),
      post = (\<lambda>path payload w. (Resolves response, w @ [(path, payload)]))\<rparr>"

section \<open>Validation failure in addBook\<close>

text \<open>
  C4. For every name and author of which at least one is empty, \<open>addBook\<close> returns
  at once, without awaiting anything: it sets \<open>error\<close> to the fixed validation message
  and makes no repository call, so the log and the outside world are as before,
  whatever the repository is.
\<close>

theorem addBook_validation_rejects:
  assumes "name = [] \<or> author = []"
  shows "fst (addBook_start repository name author \<sigma>) = None
       \<and> error (store (store_addBook repository name author \<sigma>))
           = Some ''Book name and author cannot be empty.''
       \<and> calls (store_addBook repository name author \<sigma>) = calls \<sigma>
       \<and> world (store_addBook repository name author \<sigma>) = world \<sigma>"
  using assms by (simp add: store_addBook_def addBook_start_def)

theorem addBook_validation_rejects_witness:
  "('''' = [] \<or> ''x'' = [])
   \<and> fst (addBook_start demoRepository '''' ''x'' freshSystem) = None
   \<and> error (store (store_addBook demoRepository '''' ''x'' freshSystem))
       = Some ''Book name and author cannot be empty.''
   \<and> calls (store_addBook demoRepository '''' ''x'' freshSystem) = []
   \<and> world (store_addBook demoRepository '''' ''x'' freshSystem) = 0"
  using addBook_validation_rejects [of "''''" "''x''" demoRepository freshSystem]
  by (simp add: freshSystem_def)

text \<open>
  C10. On the same path \<open>addBook\<close> changes the field \<open>error\<close> and nothing else:
  \<open>books\<close>, \<open>isLoading\<close>, \<open>viewType\<close> and \<open>privateBooksCount\<close> are as they were, and
  \<open>isLoading\<close> is not raised when the call returns.
\<close>

theorem addBook_validation_frame:
  assumes "name = [] \<or> author = []"
  shows "store_addBook repository name author \<sigma>
           = \<sigma>\<lparr>store := (store \<sigma>)\<lparr>error := Some ''Book name and author cannot be empty.''\<rparr>\<rparr>
       \<and> books (store (store_addBook repository name author \<sigma>)) = books (store \<sigma>)
       \<and> isLoading (store (store_addBook repository name author \<sigma>)) = isLoading (store \<sigma>)
       \<and> viewType (store (store_addBook repository name author \<sigma>)) = viewType (store \<sigma>)
       \<and> privateBooksCount (store (store_addBook repository name author \<sigma>))
           = privateBooksCount (store \<sigma>)
       \<and> isLoading (store (snd (addBook_start repository name author \<sigma>))) = isLoading (store \<sigma>)"
  using assms by (simp add: store_addBook_def addBook_start_def)

theorem addBook_validation_frame_witness:
  "(''Dune'' = [] \<or> '''' = [])
   \<and> store_addBook demoRepository ''Dune'' '''' freshSystem
       = freshSystem\<lparr>store := createBooksStore\<lparr>error := Some ''Book name and author cannot be empty.''\<rparr>\<rparr>
   \<and> books (store (store_addBook demoRepository ''Dune'' '''' freshSystem)) = []
   \<and> isLoading (store (store_addBook demoRepository ''Dune'' '''' freshSystem)) = False
   \<and> viewType (store (store_addBook demoRepository ''Dune'' '''' freshSystem)) = ''all''
   \<and> privateBooksCount (store (store_addBook demoRepository ''Dune'' '''' freshSystem)) = 0
   \<and> isLoading (store (snd (addBook_start demoRepository ''Dune'' '''' freshSystem))) = False"
  using addBook_validation_frame [of "''Dune''" "''''" demoRepository freshSystem]
  by (simp add: freshSystem_def createBooksStore_def)

section \<open>Loading the list\<close>

lemma arrayOrEmpty_not_array: "\<not> isArray v \<Longrightarrow> arrayOrEmpty v = []"
  by (cases v) simp_all

text \<open>
  C1. When \<open>viewType\<close> is one of the two valid modes, \<open>loadBooks\<close> calls exactly the
  fetch of that mode (\<open>getBooks\<close> for all, \<open>getPrivateBooks\<close> for private), once,
  and not the other. If the fetch resolves to an array, \<open>books\<close> is that array and
  \<open>error\<close> is null; if it resolves to anything else, \<open>books\<close> is empty and \<open>error\<close>
  is null; if it throws, \<open>books\<close> is empty and \<open>error\<close> is the message of the thrown
  Error, or "Failed to load books" when the thrown value is not an Error. In every
  case \<open>isLoading\<close> is false on completion.
\<close>

theorem loadBooks_by_viewType:
  assumes "viewType (store \<sigma>) = ''all'' \<or> viewType (store \<sigma>) = ''private''"
  shows "let fetch = (if viewType (store \<sigma>) = ''all'' then getBooks repository
                      else getPrivateBooks repository);
             ev = (if viewType (store \<sigma>) = ''all'' then Repo_getBooks else Repo_getPrivateBooks);
             r = fst (fetch (world \<sigma>));
             \<sigma>' = loadBooks repository \<sigma>
         in calls \<sigma>' = calls \<sigma> @ [Enter_loadBooks, ev]
          \<and> world \<sigma>' = snd (fetch (world \<sigma>))
          \<and> (\<forall>xs. r = Resolves (JArr xs) \<longrightarrow> books (store \<sigma>') = xs \<and> error (store \<sigma>') = None)
          \<and> (\<forall>v. r = Resolves v \<and> \<not> isArray v \<longrightarrow> books (store \<sigma>') = [] \<and> error (store \<sigma>') = None)
          \<and> (\<forall>m. r = Rejects (Error m) \<longrightarrow> books (store \<sigma>') = [] \<and> error (store \<sigma>') = Some m)
          \<and> (\<forall>v. r = Rejects (NonError v) \<longrightarrow>
                 books (store \<sigma>') = [] \<and> error (store \<sigma>') = Some ''Failed to load books'')
          \<and> isLoading (store \<sigma>') = False
          \<and> viewType (store \<sigma>') = viewType (store \<sigma>)
          \<and> privateBooksCount (store \<sigma>') = privateBooksCount (store \<sigma>)"
proof (cases "viewType (store \<sigma>) = ''all''")
  case True
  obtain r w' where f: "getBooks repository (world \<sigma>) = (r, w')"
    by (cases "getBooks repository (world \<sigma>)")
  show ?thesis
    using True f
    by (cases r) (auto simp: loadBooks_def loadBooks_start_def loadBooks_resume_def callRepo_def
        Let_def arrayOrEmpty_not_array)
next
  case False
  with assms have p: "viewType (store \<sigma>) = ''private''" by simp
  obtain r w' where f: "getPrivateBooks repository (world \<sigma>) = (r, w')"
    by (cases "getPrivateBooks repository (world \<sigma>)")
  show ?thesis
    using p f
    by (cases r) (auto simp: loadBooks_def loadBooks_start_def loadBooks_resume_def callRepo_def
        Let_def arrayOrEmpty_not_array)
qed

theorem loadBooks_by_viewType_witness:
  "(viewType (store freshSystem) = ''all'' \<or> viewType (store freshSystem) = ''private'')
   \<and> calls (loadBooks demoRepository freshSystem) = [Enter_loadBooks, Repo_getBooks]
   \<and> world (loadBooks demoRepository freshSystem) = 1
   \<and> JArr (books (store (loadBooks demoRepository freshSystem))) = sampleBooks 5
   \<and> error (store (loadBooks demoRepository freshSystem)) = None
   \<and> isLoading (store (loadBooks demoRepository freshSystem)) = False"
  using loadBooks_by_viewType [of freshSystem demoRepository]
  by (simp add: freshSystem_def createBooksStore_def demoRepository_def
      createMockRepository_def sampleBooks_def Let_def)

section \<open>Loading the private count\<close>

text \<open>
  C6. \<open>loadPrivateBooksCount\<close> sets \<open>privateBooksCount\<close> to the length of the array
  the private fetch resolves to; when the fetch throws or resolves to something that
  is not an array the count becomes 0. The fields \<open>error\<close>, \<open>books\<close>, \<open>isLoading\<close>
  and \<open>viewType\<close> are left as they were.
\<close>

theorem loadPrivateBooksCount_effect:
  "let r = fst (getPrivateBooks repository (world \<sigma>));
       \<sigma>' = loadPrivateBooksCount repository \<sigma>
   in (\<forall>xs. r = Resolves (JArr xs) \<longrightarrow> privateBooksCount (store \<sigma>') = length xs)
    \<and> (\<forall>v. r = Resolves v \<and> \<not> isArray v \<longrightarrow> privateBooksCount (store \<sigma>') = 0)
    \<and> (\<forall>e. r = Rejects e \<longrightarrow> privateBooksCount (store \<sigma>') = 0)
    \<and> error (store \<sigma>') = error (store \<sigma>)
    \<and> books (store \<sigma>') = books (store \<sigma>)
    \<and> isLoading (store \<sigma>') = isLoading (store \<sigma>)
    \<and> viewType (store \<sigma>') = viewType (store \<sigma>)
    \<and> calls \<sigma>' = calls \<sigma> @ [Enter_loadPrivateBooksCount, Repo_getPrivateBooks]
    \<and> world \<sigma>' = snd (getPrivateBooks repository (world \<sigma>))"
proof -
  obtain r w' where f: "getPrivateBooks repository (world \<sigma>) = (r, w')"
    by (cases "getPrivateBooks repository (world \<sigma>)")
  show ?thesis
    using f
    by (cases r)
       (simp_all add: loadPrivateBooksCount_def loadPrivateBooksCount_start_def
          loadPrivateBooksCount_resume_def callRepo_def Let_def arrayOrEmpty_not_array)
qed

theorem loadPrivateBooksCount_effect_witness:
  "privateBooksCount (store (loadPrivateBooksCount demoRepository freshSystem)) = 3
   \<and> privateBooksCount (store (loadPrivateBooksCount
        (createMockRepository (Resolves JNull) (Resolves JNull) (Resolves JNull)) freshSystem)) = 0
   \<and> privateBooksCount (store (loadPrivateBooksCount
        (createMockRepository (Resolves JNull) (Rejects (Error ''Failed to fetch count'')) (Resolves JNull))
        (freshSystem\<lparr>store := createBooksStore\<lparr>privateBooksCount := 7\<rparr>\<rparr>))) = 0
   \<and> error (store (loadPrivateBooksCount demoRepository freshSystem)) = None
   \<and> calls (loadPrivateBooksCount demoRepository freshSystem)
       = [Enter_loadPrivateBooksCount, Repo_getPrivateBooks]"
  using loadPrivateBooksCount_effect [of demoRepository freshSystem]
    loadPrivateBooksCount_effect
      [of "createMockRepository (Resolves JNull) (Resolves JNull) (Resolves JNull)" freshSystem]
    loadPrivateBooksCount_effect
      [of "createMockRepository (Resolves JNull) (Rejects (Error ''Failed to fetch count'')) (Resolves JNull)"
          "freshSystem\<lparr>store := createBooksStore\<lparr>privateBooksCount := 7\<rparr>\<rparr>"]
  by (simp add: freshSystem_def createBooksStore_def demoRepository_def
      createMockRepository_def sampleBooks_def Let_def)

section \<open>Adding a book\<close>

lemma loadBooks_calls:
  "calls (loadBooks repository \<sigma>) =
     calls \<sigma> @ [Enter_loadBooks] @
       (if viewType (store \<sigma>) = ''all'' then [Repo_getBooks]
        else if viewType (store \<sigma>) = ''private'' then [Repo_getPrivateBooks] else [])"
  by (simp add: loadBooks_def loadBooks_start_def callRepo_def Let_def split: prod.splits)

lemma loadBooks_isLoading: "isLoading (store (loadBooks repository \<sigma>)) = False"
  by (simp add: loadBooks_def loadBooks_start_def loadBooks_resume_def callRepo_def Let_def
      split: prod.splits option.splits outcome.splits)

lemma loadPrivateBooksCount_calls:
  "calls (loadPrivateBooksCount repository \<sigma>) =
     calls \<sigma> @ [Enter_loadPrivateBooksCount, Repo_getPrivateBooks]"
  by (simp add: loadPrivateBooksCount_def loadPrivateBooksCount_start_def callRepo_def
      split: prod.splits)

lemma addBook_start_nonempty:
  assumes "name \<noteq> []" and "author \<noteq> []"
    and "addBook repository name author (world \<sigma>) = (r, w1)"
  shows "addBook_start repository name author \<sigma> =
           (Some r, \<sigma>\<lparr>store := (store \<sigma>)\<lparr>isLoading := True, error := None\<rparr>,
                      world := w1, calls := calls \<sigma> @ [Repo_addBook name author]\<rparr>)"
  using assms by (simp add: addBook_start_def callRepo_def)

lemma loadBooks_all_array:
  assumes "viewType (store \<sigma>) = ''all''"
    and "getBooks repository (world \<sigma>) = (Resolves (JArr bs), w2)"
  shows "loadBooks repository \<sigma> =
           \<sigma>\<lparr>store := (store \<sigma>)\<lparr>isLoading := False, error := None, books := bs\<rparr>,
             world := w2, calls := calls \<sigma> @ [Enter_loadBooks, Repo_getBooks]\<rparr>"
  using assms
  by (simp add: loadBooks_def loadBooks_start_def loadBooks_resume_def callRepo_def Let_def)

lemma loadPrivateBooksCount_array:
  assumes "getPrivateBooks repository (world \<sigma>) = (Resolves (JArr ps), w3)"
  shows "loadPrivateBooksCount repository \<sigma> =
           \<sigma>\<lparr>store := (store \<sigma>)\<lparr>privateBooksCount := length ps\<rparr>,
             world := w3, calls := calls \<sigma> @ [Enter_loadPrivateBooksCount, Repo_getPrivateBooks]\<rparr>"
  using assms
  by (simp add: loadPrivateBooksCount_def loadPrivateBooksCount_start_def
      loadPrivateBooksCount_resume_def callRepo_def)

text \<open>
  C2. For a non-empty name and author, when the repository's \<open>addBook\<close> resolves to a
  truthy value, the store's \<open>addBook\<close> runs \<open>loadBooks\<close> once and then
  \<open>loadPrivateBooksCount\<close> once, each to completion, before its final step: the
  result is the composition of the two on the state left by the repository call, and
  the log shows the repository call, one entry into \<open>loadBooks\<close> with its fetch, then
  one entry into \<open>loadPrivateBooksCount\<close> with its fetch. In all-books mode, with a
  repository that then returns the array \<open>bs\<close> of all books and the array \<open>ps\<close> of
  private books, the final state has \<open>books = bs\<close>, \<open>privateBooksCount = length ps\<close>,
  no error and \<open>isLoading\<close> false (5 and 3 in the scenario of the witness).
\<close>

theorem addBook_success_reloads:
  assumes "name \<noteq> []" and "author \<noteq> []"
    and "addBook repository name author (world \<sigma>) = (Resolves success, w1)"
    and "truthy success"
  shows "let \<sigma>1 = \<sigma>\<lparr>store := (store \<sigma>)\<lparr>isLoading := True, error := None\<rparr>,
                    world := w1, calls := calls \<sigma> @ [Repo_addBook name author]\<rparr>;
             \<sigma>2 = loadBooks repository \<sigma>1;
             \<sigma>3 = loadPrivateBooksCount repository \<sigma>2;
             \<sigma>' = store_addBook repository name author \<sigma>
         in \<sigma>' = \<sigma>3\<lparr>store := (store \<sigma>3)\<lparr>isLoading := False\<rparr>\<rparr>
          \<and> calls \<sigma>' =
              calls \<sigma> @ [Repo_addBook name author, Enter_loadBooks] @
                (if viewType (store \<sigma>) = ''all'' then [Repo_getBooks]
                 else if viewType (store \<sigma>) = ''private'' then [Repo_getPrivateBooks] else []) @
                [Enter_loadPrivateBooksCount, Repo_getPrivateBooks]
          \<and> isLoading (store \<sigma>') = False
          \<and> (viewType (store \<sigma>) = ''all''
                \<and> getBooks repository w1 = (Resolves (JArr bs), w2)
                \<and> getPrivateBooks repository w2 = (Resolves (JArr ps), w3)
                \<longrightarrow> books (store \<sigma>') = bs
                  \<and> length (books (store \<sigma>')) = length bs
                  \<and> privateBooksCount (store \<sigma>') = length ps
                  \<and> error (store \<sigma>') = None)"
proof -
  define \<sigma>1 where "\<sigma>1 = \<sigma>\<lparr>store := (store \<sigma>)\<lparr>isLoading := True, error := None\<rparr>,
                    world := w1, calls := calls \<sigma> @ [Repo_addBook name author]\<rparr>"
  have start: "addBook_start repository name author \<sigma> = (Some (Resolves success), \<sigma>1)"
    unfolding \<sigma>1_def using assms(1-3) by (rule addBook_start_nonempty)
  have run: "store_addBook repository name author \<sigma> =
      (loadPrivateBooksCount repository (loadBooks repository \<sigma>1))
        \<lparr>store := (store (loadPrivateBooksCount repository (loadBooks repository \<sigma>1)))
           \<lparr>isLoading := False\<rparr>\<rparr>"
    using assms(4) by (simp add: store_addBook_def start addBook_resume_def Let_def)
  have vt: "viewType (store \<sigma>1) = viewType (store \<sigma>)" and c1: "calls \<sigma>1 = calls \<sigma> @ [Repo_addBook name author]"
    and w: "world \<sigma>1 = w1"
    by (simp_all add: \<sigma>1_def)
  have log: "calls (store_addBook repository name author \<sigma>) =
              calls \<sigma> @ [Repo_addBook name author, Enter_loadBooks] @
                (if viewType (store \<sigma>) = ''all'' then [Repo_getBooks]
                 else if viewType (store \<sigma>) = ''private'' then [Repo_getPrivateBooks] else []) @
                [Enter_loadPrivateBooksCount, Repo_getPrivateBooks]"
    by (simp add: run loadPrivateBooksCount_calls loadBooks_calls vt c1)
  have flag: "isLoading (store (store_addBook repository name author \<sigma>)) = False"
    by (simp add: run)
  have example: "books (store (store_addBook repository name author \<sigma>)) = bs
       \<and> length (books (store (store_addBook repository name author \<sigma>))) = length bs
       \<and> privateBooksCount (store (store_addBook repository name author \<sigma>)) = length ps
       \<and> error (store (store_addBook repository name author \<sigma>)) = None"
    if "viewType (store \<sigma>) = ''all''"
      and "getBooks repository w1 = (Resolves (JArr bs), w2)"
      and "getPrivateBooks repository w2 = (Resolves (JArr ps), w3)"
  proof -
    have l: "loadBooks repository \<sigma>1 =
           \<sigma>1\<lparr>store := (store \<sigma>1)\<lparr>isLoading := False, error := None, books := bs\<rparr>,
             world := w2, calls := calls \<sigma>1 @ [Enter_loadBooks, Repo_getBooks]\<rparr>"
      using that(1,2) by (intro loadBooks_all_array) (simp_all add: vt w)
    have p: "loadPrivateBooksCount repository (loadBooks repository \<sigma>1) =
           (loadBooks repository \<sigma>1)\<lparr>store := (store (loadBooks repository \<sigma>1))\<lparr>privateBooksCount := length ps\<rparr>,
             world := w3,
             calls := calls (loadBooks repository \<sigma>1) @ [Enter_loadPrivateBooksCount, Repo_getPrivateBooks]\<rparr>"
      using that(3) by (intro loadPrivateBooksCount_array) (simp add: l)
    show ?thesis
      by (simp add: run p) (simp add: l)
  qed
  show ?thesis
    unfolding Let_def \<sigma>1_def [symmetric]
    using run log flag example by blast
qed

theorem addBook_success_reloads_witness:
  "''Dune'' \<noteq> [] \<and> ''Herbert'' \<noteq> []
   \<and> addBook demoRepository ''Dune'' ''Herbert'' (world freshSystem) = (Resolves (JBool True), 1)
   \<and> truthy (JBool True)
   \<and> calls (store_addBook demoRepository ''Dune'' ''Herbert'' freshSystem)
       = [Repo_addBook ''Dune'' ''Herbert'', Enter_loadBooks, Repo_getBooks,
          Enter_loadPrivateBooksCount, Repo_getPrivateBooks]
   \<and> length (books (store (store_addBook demoRepository ''Dune'' ''Herbert'' freshSystem))) = 5
   \<and> privateBooksCount (store (store_addBook demoRepository ''Dune'' ''Herbert'' freshSystem)) = 3
   \<and> error (store (store_addBook demoRepository ''Dune'' ''Herbert'' freshSystem)) = None
   \<and> isLoading (store (store_addBook demoRepository ''Dune'' ''Herbert'' freshSystem)) = False"
proof -
  have a: "addBook demoRepository ''Dune'' ''Herbert'' (world freshSystem) = (Resolves (JBool True), 1)"
    by (simp add: demoRepository_def createMockRepository_def freshSystem_def)
  have v: "viewType (store freshSystem) = ''all''"
    by (simp add: freshSystem_def createBooksStore_def)
  have g: "getBooks demoRepository 1 = (Resolves (JArr (arrayOrEmpty (sampleBooks 5))), 2)"
    by (simp add: demoRepository_def createMockRepository_def sampleBooks_def)
  have p: "getPrivateBooks demoRepository 2 = (Resolves (JArr (arrayOrEmpty (sampleBooks 3))), 3)"
    by (simp add: demoRepository_def createMockRepository_def sampleBooks_def)
  have n5: "length (arrayOrEmpty (sampleBooks 5)) = 5" and n3: "length (arrayOrEmpty (sampleBooks 3)) = 3"
    by (simp_all add: sampleBooks_def)
  have c0: "calls freshSystem = []"
    by (simp add: freshSystem_def)
  have ne: "''Dune'' \<noteq> []" "''Herbert'' \<noteq> []" and tr: "truthy (JBool True)"
    by simp_all
  note th = addBook_success_reloads
    [of "''Dune''" "''Herbert''" demoRepository freshSystem "JBool True" 1
        "arrayOrEmpty (sampleBooks 5)" 2 "arrayOrEmpty (sampleBooks 3)" 3,
     OF ne a tr, unfolded Let_def]
  have log: "calls (store_addBook demoRepository ''Dune'' ''Herbert'' freshSystem)
       = [Repo_addBook ''Dune'' ''Herbert'', Enter_loadBooks, Repo_getBooks,
          Enter_loadPrivateBooksCount, Repo_getPrivateBooks]"
    using th [THEN conjunct2, THEN conjunct1] v c0 by simp
  have flag: "isLoading (store (store_addBook demoRepository ''Dune'' ''Herbert'' freshSystem)) = False"
    using th [THEN conjunct2, THEN conjunct2, THEN conjunct1] .
  have ex: "length (books (store (store_addBook demoRepository ''Dune'' ''Herbert'' freshSystem))) = 5
     \<and> privateBooksCount (store (store_addBook demoRepository ''Dune'' ''Herbert'' freshSystem)) = 3
     \<and> error (store (store_addBook demoRepository ''Dune'' ''Herbert'' freshSystem)) = None"
    using th [THEN conjunct2, THEN conjunct2, THEN conjunct2] v g p n5 n3
    by simp
  show ?thesis
    using a log flag ex by simp
qed

text \<open>
  C5. For a non-empty name and author, when the repository's \<open>addBook\<close> resolves to a
  falsy value or throws, \<open>error\<close> becomes a message (the fixed text of line 118 for a
  falsy result, the message of a thrown Error, "Failed to add book" for any other
  thrown value) and nothing is reloaded: the log gains the one repository call only,
  \<open>books\<close>, \<open>viewType\<close> and \<open>privateBooksCount\<close> are as before, and \<open>isLoading\<close> is
  false on completion.
\<close>

theorem addBook_failure_no_reload:
  assumes "name \<noteq> []" and "author \<noteq> []"
    and "addBook repository name author (world \<sigma>) = (r, w1)"
    and "(\<exists>v. r = Resolves v \<and> \<not> truthy v) \<or> (\<exists>e. r = Rejects e)"
  shows "let \<sigma>' = store_addBook repository name author \<sigma>
         in (\<forall>v. r = Resolves v \<longrightarrow>
                error (store \<sigma>') = Some ''Repository returned false, book might not have been added.'')
          \<and> (\<forall>m. r = Rejects (Error m) \<longrightarrow> error (store \<sigma>') = Some m)
          \<and> (\<forall>v. r = Rejects (NonError v) \<longrightarrow> error (store \<sigma>') = Some ''Failed to add book'')
          \<and> calls \<sigma>' = calls \<sigma> @ [Repo_addBook name author]
          \<and> world \<sigma>' = w1
          \<and> books (store \<sigma>') = books (store \<sigma>)
          \<and> viewType (store \<sigma>') = viewType (store \<sigma>)
          \<and> privateBooksCount (store \<sigma>') = privateBooksCount (store \<sigma>)
          \<and> isLoading (store \<sigma>') = False"
proof -
  have start: "addBook_start repository name author \<sigma> =
           (Some r, \<sigma>\<lparr>store := (store \<sigma>)\<lparr>isLoading := True, error := None\<rparr>,
                      world := w1, calls := calls \<sigma> @ [Repo_addBook name author]\<rparr>)"
    using assms(1-3) by (rule addBook_start_nonempty)
  from assms(4) show ?thesis
  proof
    assume "\<exists>v. r = Resolves v \<and> \<not> truthy v"
    then obtain v where "r = Resolves v" and "\<not> truthy v" by blast
    then show ?thesis
      by (simp add: store_addBook_def start addBook_resume_def addBook_catch_def Let_def)
  next
    assume "\<exists>e. r = Rejects e"
    then obtain e where "r = Rejects e" by blast
    then show ?thesis
      by (cases e) (simp_all add: store_addBook_def start addBook_resume_def addBook_catch_def Let_def)
  qed
qed

theorem addBook_failure_no_reload_witness:
  "''New Book'' \<noteq> [] \<and> ''New Author'' \<noteq> []
   \<and> ((\<exists>v. Resolves (JBool False) = Resolves v \<and> \<not> truthy v) \<or> (\<exists>e. Resolves (JBool False) = Rejects e))
   \<and> error (store (store_addBook
        (createMockRepository (Resolves (sampleBooks 5)) (Resolves (sampleBooks 3)) (Resolves (JBool False)))
        ''New Book'' ''New Author'' freshSystem))
       = Some ''Repository returned false, book might not have been added.''
   \<and> calls (store_addBook
        (createMockRepository (Resolves (sampleBooks 5)) (Resolves (sampleBooks 3)) (Resolves (JBool False)))
        ''New Book'' ''New Author'' freshSystem) = [Repo_addBook ''New Book'' ''New Author'']
   \<and> books (store (store_addBook
        (createMockRepository (Resolves (sampleBooks 5)) (Resolves (sampleBooks 3)) (Resolves (JBool False)))
        ''New Book'' ''New Author'' freshSystem)) = []
   \<and> privateBooksCount (store (store_addBook
        (createMockRepository (Resolves (sampleBooks 5)) (Resolves (sampleBooks 3)) (Resolves (JBool False)))
        ''New Book'' ''New Author'' freshSystem)) = 0
   \<and> isLoading (store (store_addBook
        (createMockRepository (Resolves (sampleBooks 5)) (Resolves (sampleBooks 3)) (Resolves (JBool False)))
        ''New Book'' ''New Author'' freshSystem)) = False
   \<and> ((\<exists>v. Rejects (Error ''Failed to add'') = Resolves v \<and> \<not> truthy v)
        \<or> (\<exists>e. Rejects (Error ''Failed to add'') = Rejects e))
   \<and> error (store (store_addBook
        (createMockRepository (Resolves (sampleBooks 5)) (Resolves (sampleBooks 3)) (Rejects (Error ''Failed to add'')))
        ''New Book'' ''New Author'' freshSystem)) = Some ''Failed to add''"
proof -
  have ne: "''New Book'' \<noteq> []" "''New Author'' \<noteq> []"
    by simp_all
  have a1: "addBook (createMockRepository (Resolves (sampleBooks 5)) (Resolves (sampleBooks 3)) (Resolves (JBool False)))
              ''New Book'' ''New Author'' (world freshSystem) = (Resolves (JBool False), 1)"
    by (simp add: createMockRepository_def freshSystem_def)
  have f1: "(\<exists>v. Resolves (JBool False) = Resolves v \<and> \<not> truthy v) \<or> (\<exists>e. Resolves (JBool False) = Rejects e)"
    by simp
  have a2: "addBook (createMockRepository (Resolves (sampleBooks 5)) (Resolves (sampleBooks 3)) (Rejects (Error ''Failed to add'')))
              ''New Book'' ''New Author'' (world freshSystem) = (Rejects (Error ''Failed to add''), 1)"
    by (simp add: createMockRepository_def freshSystem_def)
  have f2: "(\<exists>v. Rejects (Error ''Failed to add'') = Resolves v \<and> \<not> truthy v)
        \<or> (\<exists>e. Rejects (Error ''Failed to add'') = Rejects e)"
    by simp
  show ?thesis
    using addBook_failure_no_reload [OF ne a1 f1] addBook_failure_no_reload [OF ne a2 f2] f1 f2
    by (simp add: Let_def freshSystem_def createBooksStore_def)
qed

section \<open>Switching the view\<close>

lemma loadBooks_start_valid:
  assumes "viewType (store \<sigma>) = ''all'' \<or> viewType (store \<sigma>) = ''private''"
  shows "loadBooks_start repository \<sigma> =
     (let fetch = (if viewType (store \<sigma>) = ''all'' then getBooks repository
                   else getPrivateBooks repository);
          ev = (if viewType (store \<sigma>) = ''all'' then Repo_getBooks else Repo_getPrivateBooks)
      in (Some (fst (fetch (world \<sigma>))),
          \<sigma>\<lparr>store := (store \<sigma>)\<lparr>isLoading := True, error := None\<rparr>,
            world := snd (fetch (world \<sigma>)),
            calls := calls \<sigma> @ [Enter_loadBooks, ev]\<rparr>))"
  using assms
  by (auto simp: loadBooks_start_def callRepo_def Let_def split: prod.splits)

lemma loadPrivateBooksCount_start_eq:
  "loadPrivateBooksCount_start repository \<sigma> =
     (fst (getPrivateBooks repository (world \<sigma>)),
      \<sigma>\<lparr>world := snd (getPrivateBooks repository (world \<sigma>)),
        calls := calls \<sigma> @ [Enter_loadPrivateBooksCount, Repo_getPrivateBooks]\<rparr>)"
  by (simp add: loadPrivateBooksCount_start_def callRepo_def split: prod.splits)

text \<open>
  C3. \<open>setViewType\<close> with the current mode changes nothing and calls nothing;
  so does \<open>setViewType\<close> with a value that is neither "all" nor "private". With the
  other valid mode it stores the new mode and starts \<open>loadBooks\<close> and then
  \<open>loadPrivateBooksCount\<close> without awaiting them: when it returns, both fetches have
  been called, \<open>isLoading\<close> is still raised, \<open>books\<close> and \<open>privateBooksCount\<close> are
  not yet written, and the two continuations are pending.
\<close>

theorem setViewType_cases:
  "(type = viewType (store \<sigma>) \<longrightarrow> setViewType repository type \<sigma> = (\<sigma>, []))
 \<and> (type \<noteq> ''all'' \<and> type \<noteq> ''private'' \<longrightarrow> setViewType repository type \<sigma> = (\<sigma>, []))
 \<and> ((type = ''all'' \<or> type = ''private'') \<and> type \<noteq> viewType (store \<sigma>) \<longrightarrow>
      (let fetch = (if type = ''all'' then getBooks repository else getPrivateBooks repository);
           ev = (if type = ''all'' then Repo_getBooks else Repo_getPrivateBooks);
           r = fst (fetch (world \<sigma>));
           w1 = snd (fetch (world \<sigma>));
           q = fst (getPrivateBooks repository w1);
           w2 = snd (getPrivateBooks repository w1)
       in setViewType repository type \<sigma> =
            (\<lparr>store = (store \<sigma>)\<lparr>viewType := type, isLoading := True, error := None\<rparr>,
              world = w2,
              calls = calls \<sigma> @ [Enter_loadBooks, ev, Enter_loadPrivateBooksCount, Repo_getPrivateBooks]\<rparr>,
             [Awaiting_loadBooks (Some r), Awaiting_loadPrivateBooksCount q])))"
proof (intro conjI impI)
  assume "type = viewType (store \<sigma>)"
  then show "setViewType repository type \<sigma> = (\<sigma>, [])"
    by (simp add: setViewType_def)
next
  assume "type \<noteq> ''all'' \<and> type \<noteq> ''private''"
  then show "setViewType repository type \<sigma> = (\<sigma>, [])"
    by (simp add: setViewType_def)
next
  assume a: "(type = ''all'' \<or> type = ''private'') \<and> type \<noteq> viewType (store \<sigma>)"
  let ?\<sigma>0 = "\<sigma>\<lparr>store := (store \<sigma>)\<lparr>viewType := type\<rparr>\<rparr>"
  have v: "viewType (store ?\<sigma>0) = ''all'' \<or> viewType (store ?\<sigma>0) = ''private''"
    using a by simp
  show "let fetch = (if type = ''all'' then getBooks repository else getPrivateBooks repository);
           ev = (if type = ''all'' then Repo_getBooks else Repo_getPrivateBooks);
           r = fst (fetch (world \<sigma>));
           w1 = snd (fetch (world \<sigma>));
           q = fst (getPrivateBooks repository w1);
           w2 = snd (getPrivateBooks repository w1)
       in setViewType repository type \<sigma> =
            (\<lparr>store = (store \<sigma>)\<lparr>viewType := type, isLoading := True, error := None\<rparr>,
              world = w2,
              calls = calls \<sigma> @ [Enter_loadBooks, ev, Enter_loadPrivateBooksCount, Repo_getPrivateBooks]\<rparr>,
             [Awaiting_loadBooks (Some r), Awaiting_loadPrivateBooksCount q])"
  proof -
    have ne: "viewType (store \<sigma>) \<noteq> type" and ok: "type = ''all'' \<or> type = ''private''"
      using a by blast+
    show ?thesis
      using ne ok
      by (auto simp: setViewType_def loadBooks_start_valid [OF v] loadPrivateBooksCount_start_eq Let_def)
  qed
qed

theorem setViewType_cases_witness:
  "setViewType demoRepository ''all'' freshSystem = (freshSystem, [])
 \<and> setViewType demoRepository ''invalid'' freshSystem = (freshSystem, [])
 \<and> setViewType demoRepository ''private'' freshSystem =
      (\<lparr>store = createBooksStore\<lparr>viewType := ''private'', isLoading := True, error := None\<rparr>,
        world = 2,
        calls = [Enter_loadBooks, Repo_getPrivateBooks, Enter_loadPrivateBooksCount, Repo_getPrivateBooks]\<rparr>,
       [Awaiting_loadBooks (Some (Resolves (sampleBooks 3))),
        Awaiting_loadPrivateBooksCount (Resolves (sampleBooks 3))])"
proof -
  have v: "viewType (store freshSystem) = ''all''"
    by (simp add: freshSystem_def createBooksStore_def)
  have 1: "setViewType demoRepository ''all'' freshSystem = (freshSystem, [])"
    using setViewType_cases [of "''all''" freshSystem demoRepository] v by simp
  have 2: "setViewType demoRepository ''invalid'' freshSystem = (freshSystem, [])"
    using setViewType_cases [of "''invalid''" freshSystem demoRepository] by simp
  have 3: "setViewType demoRepository ''private'' freshSystem =
      (\<lparr>store = createBooksStore\<lparr>viewType := ''private'', isLoading := True, error := None\<rparr>,
        world = 2,
        calls = [Enter_loadBooks, Repo_getPrivateBooks, Enter_loadPrivateBooksCount, Repo_getPrivateBooks]\<rparr>,
       [Awaiting_loadBooks (Some (Resolves (sampleBooks 3))),
        Awaiting_loadPrivateBooksCount (Resolves (sampleBooks 3))])"
    using setViewType_cases [of "''private''" freshSystem demoRepository] v
    by (simp add: Let_def freshSystem_def demoRepository_def createMockRepository_def)
  show ?thesis
    using 1 2 3 by simp
qed

text \<open>The two pending continuations write different fields, so their order does not matter.\<close>

lemma resume_order_irrelevant:
  "loadPrivateBooksCount_resume q (loadBooks_resume p s)
     = loadBooks_resume p (loadPrivateBooksCount_resume q s)"
  by (simp add: loadBooks_resume_def loadPrivateBooksCount_resume_def Let_def
      split: option.splits outcome.splits)

section \<open>The loading flag\<close>

lemma addBook_resume_isLoading: "isLoading (store (addBook_resume repository p \<sigma>)) = False"
  by (simp add: addBook_resume_def Let_def)

lemma loadBooks_resume_isLoading: "isLoading (loadBooks_resume p s) = False"
  by (simp add: loadBooks_resume_def Let_def)

lemma loadBooks_start_flags:
  "isLoading (store (snd (loadBooks_start repository \<sigma>))) = True
   \<and> error (store (snd (loadBooks_start repository \<sigma>))) = None"
  by (simp add: loadBooks_start_def callRepo_def Let_def split: prod.splits)

lemma addBook_start_flags:
  "name \<noteq> [] \<Longrightarrow> author \<noteq> [] \<Longrightarrow>
   isLoading (store (snd (addBook_start repository name author \<sigma>))) = True
   \<and> error (store (snd (addBook_start repository name author \<sigma>))) = None"
  by (simp add: addBook_start_def callRepo_def split: prod.splits)

text \<open>
  C7, as the code has it. \<open>loadBooks\<close>, for every repository outcome, and \<open>addBook\<close>
  with a non-empty name and author, for every repository outcome, raise \<open>isLoading\<close>
  before their \<^verbatim>\<open>await\<close> and lower it in their final step, whatever was awaited and
  whatever the store holds by then. \<open>addBook\<close> with an empty name or author returns
  before the flag is touched and leaves \<open>isLoading\<close> as it found it.
\<close>

theorem isLoading_raised_then_reset:
  "isLoading (store (snd (loadBooks_start repository \<sigma>)))
 \<and> \<not> isLoading (loadBooks_resume p s)
 \<and> \<not> isLoading (store (loadBooks repository \<sigma>))
 \<and> (name \<noteq> [] \<and> author \<noteq> [] \<longrightarrow>
      isLoading (store (snd (addBook_start repository name author \<sigma>)))
      \<and> \<not> isLoading (store (store_addBook repository name author \<sigma>)))
 \<and> \<not> isLoading (store (addBook_resume repository q \<sigma>))
 \<and> (name = [] \<or> author = [] \<longrightarrow>
      isLoading (store (snd (addBook_start repository name author \<sigma>))) = isLoading (store \<sigma>)
      \<and> isLoading (store (store_addBook repository name author \<sigma>)) = isLoading (store \<sigma>))"
proof -
  have "\<not> isLoading (store (loadBooks repository \<sigma>))"
    by (simp add: loadBooks_def loadBooks_resume_isLoading split: prod.splits)
  moreover have "\<not> isLoading (store (store_addBook repository name author \<sigma>))"
    if "name \<noteq> []" and "author \<noteq> []"
    using that
    by (simp add: store_addBook_def addBook_start_def callRepo_def addBook_resume_isLoading
        split: prod.splits)
  moreover have "isLoading (store (snd (addBook_start repository name author \<sigma>))) = isLoading (store \<sigma>)
      \<and> isLoading (store (store_addBook repository name author \<sigma>)) = isLoading (store \<sigma>)"
    if "name = [] \<or> author = []"
    using that by (simp add: store_addBook_def addBook_start_def)
  ultimately show ?thesis
    using loadBooks_start_flags [of repository \<sigma>] addBook_start_flags [of name author repository \<sigma>]
    by (simp add: loadBooks_resume_isLoading addBook_resume_isLoading)
qed

theorem isLoading_raised_then_reset_witness:
  "isLoading (store (snd (loadBooks_start demoRepository freshSystem)))
 \<and> \<not> isLoading (store (loadBooks demoRepository freshSystem))
 \<and> (''Dune'' \<noteq> [] \<and> ''Herbert'' \<noteq> [])
 \<and> isLoading (store (snd (addBook_start demoRepository ''Dune'' ''Herbert'' freshSystem)))
 \<and> \<not> isLoading (store (store_addBook demoRepository ''Dune'' ''Herbert'' freshSystem))
 \<and> ('''' = [] \<or> ''Herbert'' = [])
 \<and> isLoading (store (snd (addBook_start demoRepository '''' ''Herbert'' freshSystem)))
      = isLoading (store freshSystem)
 \<and> isLoading (store (store_addBook demoRepository '''' ''Herbert'' freshSystem))
      = isLoading (store freshSystem)"
  using isLoading_raised_then_reset [of demoRepository freshSystem _ _ "''Dune''" "''Herbert''"]
    isLoading_raised_then_reset [of demoRepository freshSystem _ _ "''''" "''Herbert''"]
  by simp

text \<open>
  C7 as stated covers every input of \<open>addBook\<close>. It fails on the validation path:
  \<open>addBook("", "x")\<close> on a fresh store never raises \<open>isLoading\<close>, and called while
  the flag is raised it completes with the flag still raised.
\<close>

theorem isLoading_raised_then_reset_counterexample:
  "\<not> isLoading (store (snd (addBook_start demoRepository '''' ''x'' freshSystem)))
   \<and> isLoading (store (store_addBook demoRepository '''' ''x''
        (freshSystem\<lparr>store := createBooksStore\<lparr>isLoading := True\<rparr>\<rparr>)))"
  by (simp add: addBook_start_def store_addBook_def freshSystem_def createBooksStore_def)

section \<open>Clearing the error\<close>

text \<open>
  C8, as the code has it. \<open>error\<close> is cleared at the start of \<open>loadBooks\<close>, at the
  start of \<open>addBook\<close> with a non-empty name and author, and so by \<open>setViewType\<close>
  with the other valid mode, which starts \<open>loadBooks\<close>. \<open>addBook\<close> with an empty
  name or author overwrites \<open>error\<close> with the validation message.
  \<open>loadPrivateBooksCount\<close> never writes \<open>error\<close>, and \<open>setViewType\<close> with the current
  mode or an invalid value leaves it as it was.
\<close>

theorem error_cleared_at_start:
  "error (store (snd (loadBooks_start repository \<sigma>))) = None
 \<and> (name \<noteq> [] \<and> author \<noteq> [] \<longrightarrow>
      error (store (snd (addBook_start repository name author \<sigma>))) = None)
 \<and> (name = [] \<or> author = [] \<longrightarrow>
      error (store (snd (addBook_start repository name author \<sigma>)))
        = Some ''Book name and author cannot be empty.'')
 \<and> ((type = ''all'' \<or> type = ''private'') \<and> type \<noteq> viewType (store \<sigma>) \<longrightarrow>
      error (store (fst (setViewType repository type \<sigma>))) = None)
 \<and> (type = viewType (store \<sigma>) \<or> (type \<noteq> ''all'' \<and> type \<noteq> ''private'') \<longrightarrow>
      error (store (fst (setViewType repository type \<sigma>))) = error (store \<sigma>))
 \<and> error (store (snd (loadPrivateBooksCount_start repository \<sigma>))) = error (store \<sigma>)
 \<and> error (store (loadPrivateBooksCount repository \<sigma>)) = error (store \<sigma>)"
proof -
  have 1: "error (store (snd (loadBooks_start repository \<sigma>))) = None"
    using loadBooks_start_flags by blast
  have 2: "error (store (snd (addBook_start repository name author \<sigma>))) = None"
    if "name \<noteq> [] \<and> author \<noteq> []"
    using that addBook_start_flags by blast
  have 3: "error (store (snd (addBook_start repository name author \<sigma>)))
        = Some ''Book name and author cannot be empty.''"
    if "name = [] \<or> author = []"
    using that by (simp add: addBook_start_def)
  have 4: "error (store (fst (setViewType repository type \<sigma>))) = None"
    if a: "(type = ''all'' \<or> type = ''private'') \<and> type \<noteq> viewType (store \<sigma>)"
  proof -
    have ne: "viewType (store \<sigma>) \<noteq> type" and ok: "type = ''all'' \<or> type = ''private''"
      using a by blast+
    show ?thesis
      using ne ok
      by (auto simp: setViewType_def loadBooks_start_def loadPrivateBooksCount_start_def
          callRepo_def Let_def split: prod.splits)
  qed
  have 5: "error (store (fst (setViewType repository type \<sigma>))) = error (store \<sigma>)"
    if "type = viewType (store \<sigma>) \<or> (type \<noteq> ''all'' \<and> type \<noteq> ''private'')"
    using that by (auto simp: setViewType_def)
  have 6: "error (store (snd (loadPrivateBooksCount_start repository \<sigma>))) = error (store \<sigma>)"
    by (simp add: loadPrivateBooksCount_start_def callRepo_def split: prod.splits)
  have 7: "error (store (loadPrivateBooksCount repository \<sigma>)) = error (store \<sigma>)"
    by (simp add: loadPrivateBooksCount_def loadPrivateBooksCount_start_def
        loadPrivateBooksCount_resume_def callRepo_def split: prod.splits outcome.splits)
  show ?thesis
    using 1 2 3 4 5 6 7 by blast
qed

theorem error_cleared_at_start_witness:
  "error (store (snd (loadBooks_start demoRepository
      (freshSystem\<lparr>store := createBooksStore\<lparr>error := Some ''Network Error''\<rparr>\<rparr>)))) = None
 \<and> (''Dune'' \<noteq> [] \<and> ''Herbert'' \<noteq> [])
 \<and> error (store (snd (addBook_start demoRepository ''Dune'' ''Herbert''
      (freshSystem\<lparr>store := createBooksStore\<lparr>error := Some ''Network Error''\<rparr>\<rparr>)))) = None
 \<and> ((''private'' = ''all'' \<or> ''private'' = ''private'')
      \<and> ''private'' \<noteq> viewType (store (freshSystem\<lparr>store := createBooksStore\<lparr>error := Some ''Network Error''\<rparr>\<rparr>)))
 \<and> error (store (fst (setViewType demoRepository ''private''
      (freshSystem\<lparr>store := createBooksStore\<lparr>error := Some ''Network Error''\<rparr>\<rparr>)))) = None
 \<and> ('''' = [] \<or> ''Herbert'' = [])
 \<and> error (store (snd (addBook_start demoRepository '''' ''Herbert''
      (freshSystem\<lparr>store := createBooksStore\<lparr>error := Some ''Network Error''\<rparr>\<rparr>))))
      = Some ''Book name and author cannot be empty.''
 \<and> (''invalid'' = viewType (store (freshSystem\<lparr>store := createBooksStore\<lparr>error := Some ''Network Error''\<rparr>\<rparr>))
      \<or> (''invalid'' \<noteq> ''all'' \<and> ''invalid'' \<noteq> ''private''))
 \<and> error (store (fst (setViewType demoRepository ''invalid''
      (freshSystem\<lparr>store := createBooksStore\<lparr>error := Some ''Network Error''\<rparr>\<rparr>))))
      = Some ''Network Error''"
  using error_cleared_at_start [of demoRepository
          "freshSystem\<lparr>store := createBooksStore\<lparr>error := Some ''Network Error''\<rparr>\<rparr>"
          "''Dune''" "''Herbert''" "''private''"]
    error_cleared_at_start [of demoRepository
          "freshSystem\<lparr>store := createBooksStore\<lparr>error := Some ''Network Error''\<rparr>\<rparr>"
          "''''" "''Herbert''" "''invalid''"]
  by (simp add: createBooksStore_def)

text \<open>
  C8 as stated has every operation reset \<open>error\<close> to null at its start. On a store
  whose \<open>error\<close> is "Network Error", \<open>loadPrivateBooksCount\<close> keeps it, at its
  start and on completion, and so does \<open>setViewType\<close> with the current mode or with
  an invalid value.
\<close>

theorem error_cleared_at_start_counterexample:
  "error (store (snd (loadPrivateBooksCount_start demoRepository
      (freshSystem\<lparr>store := createBooksStore\<lparr>error := Some ''Network Error''\<rparr>\<rparr>))))
     = Some ''Network Error''
 \<and> error (store (loadPrivateBooksCount demoRepository
      (freshSystem\<lparr>store := createBooksStore\<lparr>error := Some ''Network Error''\<rparr>\<rparr>)))
     = Some ''Network Error''
 \<and> error (store (fst (setViewType demoRepository ''all''
      (freshSystem\<lparr>store := createBooksStore\<lparr>error := Some ''Network Error''\<rparr>\<rparr>))))
     = Some ''Network Error''
 \<and> error (store (fst (setViewType demoRepository ''invalid''
      (freshSystem\<lparr>store := createBooksStore\<lparr>error := Some ''Network Error''\<rparr>\<rparr>))))
     = Some ''Network Error''"
  by (simp add: loadPrivateBooksCount_def loadPrivateBooksCount_start_def
      loadPrivateBooksCount_resume_def callRepo_def setViewType_def freshSystem_def
      createBooksStore_def demoRepository_def createMockRepository_def)

section \<open>The repository's addBook\<close>

lemma repository_addBook_request:
  "repository_addBook gw now rnd name author w =
     (case post gw ''/''
             (JObj [(''id'', JNum (of_int (generateUniqueId now rnd))),
                    (''name'', JStr name), (''author'', JStr author)]) w of
        (Resolves bookAddDto, w') \<Rightarrow>
          (Resolves (JBool (truthy bookAddDto \<and> getProp bookAddDto ''status'' = JStr ''ok'')), w')
      | (Rejects err, w') \<Rightarrow> (Rejects err, w'))"
  by (simp add: repository_addBook_def addBook_payload_def addBook_result_def Let_def
      split: prod.splits outcome.splits)

lemma addBook_result_examples:
  "addBook_result (JObj [(''status'', JStr ''ok''), (''id'', JNum 123)])"
  "\<not> addBook_result (JObj [(''status'', JStr ''error'')])"
  "\<not> addBook_result JNull"
  by (simp_all add: addBook_result_def)

text \<open>
  C9. The repository posts \<open>{id, name, author}\<close> to "/" and resolves to true exactly
  for a truthy response whose \<open>status\<close> is "ok" (the two lemmas above). The
  identifier, however, is not distinct for every two calls: two calls in the same
  millisecond whose random numbers are 0.25 and 0.25048828125 both post the id
  1700000000250, and so do calls half a second apart with random numbers 0.5 and 0.
\<close>

theorem addBook_ids_collide:
  "(1/4 :: real) \<noteq> 513/2048
 \<and> generateUniqueId 1700000000000 (1/4) = generateUniqueId 1700000000000 (513/2048)
 \<and> generateUniqueId 1700000000000 (1/2) = generateUniqueId 1700000000500 0
 \<and> repository_addBook (recordingGateway (JObj [(''status'', JStr ''ok'')]))
      1700000000000 (1/4) ''Book 1'' ''Author 1'' []
    = (Resolves (JBool True),
       [(''/'', JObj [(''id'', JNum 1700000000250), (''name'', JStr ''Book 1''),
                      (''author'', JStr ''Author 1'')])])
 \<and> repository_addBook (recordingGateway (JObj [(''status'', JStr ''ok'')]))
      1700000000000 (513/2048) ''Book 2'' ''Author 2''
      [(''/'', JObj [(''id'', JNum 1700000000250), (''name'', JStr ''Book 1''),
                     (''author'', JStr ''Author 1'')])]
    = (Resolves (JBool True),
       [(''/'', JObj [(''id'', JNum 1700000000250), (''name'', JStr ''Book 1''),
                      (''author'', JStr ''Author 1'')]),
        (''/'', JObj [(''id'', JNum 1700000000250), (''name'', JStr ''Book 2''),
                      (''author'', JStr ''Author 2'')])])"
  by (simp add: repository_addBook_def generateUniqueId_def addBook_payload_def
      addBook_result_def recordingGateway_def Let_def)

end
